theory Spec2Isabelle
  imports Complex_Main "HOL-Library.Sublist" "HOL-Library.Multiset"
begin

section \<open>JavaScript values used by header.js\<close>

text \<open>
  Strings are sequences of UTF-16 code units. The model keeps the code units below 256
  (the Latin-1 range), one \<open>char\<close> each, so \<open>of_char c\<close> is the code unit of \<open>c\<close>.
\<close>

datatype js_error = TypeError | SyntaxError | URIError | Error string

text \<open>
  The value a response body parses to. A number carries the value of the parsed double
  (negative zero is zero). An object lists its own properties in creation order.
\<close>

datatype json =
    JNull
  | JBool bool
  | JNum rat
  | JStr string
  | JArr "json list"
  | JObj "(string \<times> json) list"

text \<open>ToBoolean: \<open>null\<close>, \<open>false\<close>, zero and the empty string are falsy; objects and arrays are truthy.\<close>

fun truthy :: "json \<Rightarrow> bool" where
  "truthy JNull = False"
| "truthy (JBool b) = b"
| "truthy (JNum r) = (r \<noteq> 0)"
| "truthy (JStr s) = (s \<noteq> [])"
| "truthy (JArr xs) = True"
| "truthy (JObj kvs) = True"

subsection \<open>String built-ins\<close>

text \<open>\<open>String.prototype.toLowerCase\<close> on Latin-1 code units: A-Z and the accented capitals
  U+00C0..U+00DE (without the multiplication sign U+00D7) move up by 32.\<close>

definition lower_char :: "char \<Rightarrow> char" where
  "lower_char c =
     (let n = (of_char c :: nat)
      in if (65 \<le> n \<and> n \<le> 90) \<or> (192 \<le> n \<and> n \<le> 222 \<and> n \<noteq> 215)
         then char_of (n + 32) else c)"

definition toLowerCase :: "string \<Rightarrow> string" where
  "toLowerCase s = map lower_char s"

text \<open>White space and line terminators that \<open>String.prototype.trim\<close> strips, below 256:
  TAB, LF, VT, FF, CR, SPACE and NO-BREAK SPACE.\<close>

definition is_space :: "char \<Rightarrow> bool" where
  "is_space c = ((of_char c :: nat) \<in> {9, 10, 11, 12, 13, 32, 160})"

definition trim :: "string \<Rightarrow> string" where
  "trim s = rev (dropWhile is_space (rev (dropWhile is_space s)))"

text \<open>\<open>String.prototype.startsWith\<close> and \<open>String.prototype.includes\<close>.\<close>

fun startsWith :: "string \<Rightarrow> string \<Rightarrow> bool" where
  "startsWith s [] = True"
| "startsWith [] (p # ps) = False"
| "startsWith (c # cs) (p # ps) = (c = p \<and> startsWith cs ps)"

fun includes_str :: "string \<Rightarrow> string \<Rightarrow> bool" where
  "includes_str [] sub = (sub = [])"
| "includes_str (c # cs) sub = (startsWith (c # cs) sub \<or> includes_str cs sub)"

subsection \<open>encodeURIComponent and decodeURIComponent\<close>

definition unreserved :: "char \<Rightarrow> bool" where
  "unreserved c =
     (let n = (of_char c :: nat)
      in (65 \<le> n \<and> n \<le> 90) \<or> (97 \<le> n \<and> n \<le> 122) \<or> (48 \<le> n \<and> n \<le> 57)
         \<or> n \<in> {45, 95, 46, 33, 126, 42, 39, 40, 41})"

definition hex_digit :: "nat \<Rightarrow> char" where
  "hex_digit k = (if k < 10 then char_of (48 + k) else char_of (55 + k))"

definition percent :: "nat \<Rightarrow> string" where
  "percent b = [CHR ''%'', hex_digit (b div 16), hex_digit (b mod 16)]"

text \<open>The UTF-8 bytes of a code unit below 256: one byte below 128, two above.\<close>

definition utf8 :: "char \<Rightarrow> nat list" where
  "utf8 c =
     (let n = (of_char c :: nat)
      in if n < 128 then [n] else [192 + n div 64, 128 + n mod 64])"

definition encode_char :: "char \<Rightarrow> string" where
  "encode_char c = (if unreserved c then [c] else concat (map percent (utf8 c)))"

definition encodeURIComponent :: "string \<Rightarrow> string" where
  "encodeURIComponent s = concat (map encode_char s)"

definition hex_value :: "char \<Rightarrow> nat option" where
  "hex_value c =
     (let n = (of_char c :: nat)
      in if 48 \<le> n \<and> n \<le> 57 then Some (n - 48)
         else if 65 \<le> n \<and> n \<le> 70 then Some (n - 55)
         else if 97 \<le> n \<and> n \<le> 102 then Some (n - 87)
         else None)"

text \<open>An escape \<open>%XY\<close> at the head of a string: its byte and the rest.\<close>

fun escape :: "string \<Rightarrow> (nat \<times> string) option" where
  "escape (p # a # b # rest) =
     (if p = CHR ''%'' then
        (case (hex_value a, hex_value b) of
           (Some x, Some y) \<Rightarrow> Some (16 * x + y, rest)
         | _ \<Rightarrow> None)
      else None)"
| "escape _ = None"

definition prepend :: "char \<Rightarrow> js_error + string \<Rightarrow> js_error + string" where
  "prepend c r = (case r of Inl e \<Rightarrow> Inl e | Inr s \<Rightarrow> Inr (c # s))"

text \<open>
  \<open>decodeURIComponent\<close>: a character other than \<open>%\<close> stands for itself; an escape below
  128 is that code unit; the lead bytes 0xC2 and 0xC3 with a continuation byte decode to
  U+0080..U+00FF. A malformed escape throws URIError. A longer UTF-8 sequence decodes to
  a code point beyond U+00FF, which the string type of this model does not hold; the
  model reports URIError there too, and no theorem below rests on that case.
\<close>

fun decodeURIComponent :: "string \<Rightarrow> js_error + string" where
  "decodeURIComponent [] = Inr []"
| "decodeURIComponent (c # cs) =
     (if c \<noteq> CHR ''%'' then prepend c (decodeURIComponent cs)
      else
        (case cs of
           a # b # rest \<Rightarrow>
             (case (hex_value a, hex_value b) of
                (Some x, Some y) \<Rightarrow>
                  (let n = 16 * x + y
                   in if n < 128 then prepend (char_of n) (decodeURIComponent rest)
                      else if n = 194 \<or> n = 195 then
                        (case rest of
                           p # a2 # b2 # rest2 \<Rightarrow>
                             (if p = CHR ''%'' then
                                (case (hex_value a2, hex_value b2) of
                                   (Some x2, Some y2) \<Rightarrow>
                                     (let m = 16 * x2 + y2
                                      in if 128 \<le> m \<and> m < 192
                                         then prepend (char_of ((n - 192) * 64 + (m - 128)))
                                                (decodeURIComponent rest2)
                                         else Inl URIError)
                                 | _ \<Rightarrow> Inl URIError)
                              else Inl URIError)
                         | _ \<Rightarrow> Inl URIError)
                      else Inl URIError)
              | _ \<Rightarrow> Inl URIError)
         | _ \<Rightarrow> Inl URIError))"

subsection \<open>Object.keys\<close>

definition is_digit :: "char \<Rightarrow> bool" where
  "is_digit c = (48 \<le> (of_char c :: nat) \<and> (of_char c :: nat) \<le> 57)"

definition numeric_value :: "string \<Rightarrow> nat" where
  "numeric_value s = foldl (\<lambda>acc c. 10 * acc + (of_char c - 48)) 0 s"

text \<open>An array index: the canonical decimal string of an integer from 0 to 2^32 - 2.\<close>

definition is_array_index :: "string \<Rightarrow> bool" where
  "is_array_index s =
     (case s of
        [] \<Rightarrow> False
      | c # cs \<Rightarrow> list_all is_digit s \<and> (cs = [] \<or> c \<noteq> CHR ''0'')
                 \<and> numeric_value s < 4294967295)"

fun show_nat :: "nat \<Rightarrow> string" where
  "show_nat n =
     (if n < 10 then [char_of (48 + n)] else show_nat (n div 10) @ [char_of (48 + n mod 10)])"

text \<open>
  \<open>Object.keys\<close> lists the own enumerable string keys: the array indices first, in
  ascending numeric order, then the other keys in creation order. An array and a string
  have their indices as keys, a number and a boolean have none, \<open>null\<close> throws.
\<close>

fun object_keys :: "json \<Rightarrow> js_error + string list" where
  "object_keys JNull = Inl TypeError"
| "object_keys (JBool b) = Inr []"
| "object_keys (JNum r) = Inr []"
| "object_keys (JStr s) = Inr (map show_nat [0..<length s])"
| "object_keys (JArr xs) = Inr (map show_nat [0..<length xs])"
| "object_keys (JObj kvs) =
     Inr (sort_key numeric_value (filter is_array_index (map fst kvs))
          @ filter (\<lambda>k. \<not> is_array_index k) (map fst kvs))"

section \<open>The page\<close>

text \<open>
  A result row of the dropdown: an element of class \<open>result\<close> inside the box, with its
  \<open>data-name\<close> attribute and its text.
\<close>

record result_row =
  data_name :: string
  label :: string

text \<open>The element \<open>#search-results\<close>: its inline display style, its rows, its aria-hidden attribute.\<close>

record results_box =
  display :: string
  rows :: "result_row list"
  aria_hidden :: string

datatype link = LinkInfo | LinkPokedex | LinkMoves | LinkLocations | LinkAbilities

datatype listener = SearchInput | SearchKeydown | DocumentClick

text \<open>
  What header.js reads and writes. An element that may be absent is an option:
  \<open>search\<close> is the value of the input \<open>#search\<close>, \<open>nav l\<close> tells whether the link
  \<open>l\<close> carries the class \<open>active\<close>. \<open>href\<close> is the last assignment to
  \<open>window.location.href\<close>. \<open>fetches\<close> counts the requests for data/pokedex.json,
  \<open>warnings\<close> collects the calls of \<open>console.warn\<close>. \<open>timers\<close> is the table of
  pending timeouts (handle, due time in milliseconds), \<open>clock\<close> the current time, and
  \<open>evaluations\<close> records the input value read by each search evaluation that ran.
\<close>

record page =
  pathname :: string
  site_header :: bool
  search :: "string option"
  search_results :: "results_box option"
  nav :: "link \<Rightarrow> bool option"
  href :: "string option"
  listeners :: "listener list"
  searchPokedex :: json
  fetches :: nat
  warnings :: "string list"
  searchDebounceTimer :: "nat option"
  timers :: "(nat \<times> nat) list"
  next_timer :: nat
  clock :: nat
  evaluations :: "string list"

text \<open>The outcome of a \<open>fetch\<close>: the promise rejects, or a response with its \<open>ok\<close> flag and body.\<close>

datatype 'a fetch_outcome = Rejected | Response bool 'a

subsection \<open>loadSearchPokedex\<close>

text \<open>The body of the \<open>try\<close> block: the body of the response is what \<open>res.json()\<close> gives.\<close>

definition fetch_pokedex ::
  "(js_error + json) fetch_outcome \<Rightarrow> page \<Rightarrow> (js_error + json) \<times> page" where
  "fetch_pokedex r p =
     (let p1 = p\<lparr>fetches := Suc (fetches p)\<rparr>
      in case r of
           Rejected \<Rightarrow> (Inl TypeError, p1)
         | Response ok body \<Rightarrow>
             if \<not> ok then (Inl (Error ''pokedex.json fetch failed''), p1)
             else (case body of
                     Inl e \<Rightarrow> (Inl e, p1)
                   | Inr v \<Rightarrow> (Inr v, p1\<lparr>searchPokedex := v\<rparr>)))"

text \<open>The result is \<open>Inl\<close> when the returned promise rejects, \<open>Inr\<close> when it resolves.\<close>

definition loadSearchPokedex ::
  "(js_error + json) fetch_outcome \<Rightarrow> page \<Rightarrow> (js_error + json) \<times> page" where
  "loadSearchPokedex r p =
     (if truthy (searchPokedex p) then (Inr (searchPokedex p), p)
      else (case fetch_pokedex r p of
              (Inr v, p1) \<Rightarrow> (Inr v, p1)
            | (Inl e, p1) \<Rightarrow>
                (Inr (JObj []),
                 p1\<lparr>warnings := warnings p1 @ [''Header search: could not load pokedex.json:''],
                    searchPokedex := JObj []\<rparr>)))"

text \<open>Calls one after the other, each with the answer the network would give it.\<close>

fun load_all ::
  "(js_error + json) fetch_outcome list \<Rightarrow> page \<Rightarrow> (js_error + json) list \<times> page" where
  "load_all [] p = ([], p)"
| "load_all (r # rs) p =
     (let (v, p1) = loadSearchPokedex r p; (vs, p2) = load_all rs p1 in (v # vs, p2))"

subsection \<open>renderSearchResults\<close>

text \<open>The row written for a name:
  \<open><div class="result" data-name="${encodeURIComponent(name)}">${name}</div>\<close>.\<close>

definition result_of :: "string \<Rightarrow> result_row" where
  "result_of name = \<lparr>data_name = encodeURIComponent name, label = name\<rparr>"

text \<open>
  The name goes into \<open>innerHTML\<close> as it is, without escaping. A name without \<open><\<close>,
  \<open>&\<close>, NUL and CR is plain text to the parser of the browser, which then makes of the
  markup the rows written, one for each name, with the name as its text.
\<close>

definition plain_text :: "string \<Rightarrow> bool" where
  "plain_text name =
     list_all (\<lambda>c. c \<noteq> CHR ''<'' \<and> c \<noteq> CHR ''&'' \<and> c \<noteq> CHR 0x00 \<and> c \<noteq> CHR 0x0D) name"

text \<open>
  The elements of class \<open>result\<close> that \<open>querySelectorAll\<close> finds after the assignment to
  \<open>innerHTML\<close>. For other than plain names the markup is the parser's to read (a name can
  open elements of its own, or swallow the markup that follows it); the model does not
  say what the rows are then, and nothing below is proved about them.
\<close>

definition html_rows :: "string list \<Rightarrow> result_row list" where
  "html_rows names = (if list_all plain_text names then map result_of names else undefined)"

text \<open>The argument is \<open>None\<close> for \<open>null\<close>.\<close>

definition renderSearchResults :: "string list option \<Rightarrow> page \<Rightarrow> page" where
  "renderSearchResults matches p =
     (case search_results p of
        None \<Rightarrow> p
      | Some box \<Rightarrow>
          if matches = None \<or> matches = Some []
          then p\<lparr>search_results :=
                   Some (box\<lparr>display := ''none'', rows := [], aria_hidden := ''true''\<rparr>)\<rparr>
          else p\<lparr>search_results :=
                   Some (box\<lparr>rows := html_rows (the matches), display := ''block'',
                              aria_hidden := ''false''\<rparr>)\<rparr>)"

subsection \<open>searchPokemon and its timer\<close>

definition clearTimeout :: "nat \<Rightarrow> page \<Rightarrow> page" where
  "clearTimeout h p = p\<lparr>timers := filter (\<lambda>(i, d). i \<noteq> h) (timers p)\<rparr>"

definition setTimeout :: "nat \<Rightarrow> page \<Rightarrow> nat \<times> page" where
  "setTimeout delay p =
     (next_timer p,
      p\<lparr>timers := timers p @ [(next_timer p, clock p + delay)],
        next_timer := Suc (next_timer p)\<rparr>)"

definition searchPokemon :: "page \<Rightarrow> page" where
  "searchPokemon p =
     (if search p = None \<or> search_results p = None then p
      else
        (let p1 = (case searchDebounceTimer p of None \<Rightarrow> p | Some h \<Rightarrow> clearTimeout h p);
             (h, p2) = setTimeout 120 p1
         in p2\<lparr>searchDebounceTimer := Some h\<rparr>))"

text \<open>The line \<open>names.filter(name => name.toLowerCase().includes(raw)).slice(0, 15)\<close>.\<close>

definition matches_of :: "string \<Rightarrow> string list \<Rightarrow> string list" where
  "matches_of raw names = take 15 (filter (\<lambda>name. includes_str (toLowerCase name) raw) names)"

text \<open>
  The callback that \<open>searchPokemon\<close> hands to \<open>setTimeout\<close>. \<open>r\<close> is what the network
  answers if the callback has to fetch. An exception ends the callback where it is. The
  callback is one step of the model: no other handler runs while it awaits the loader.
\<close>

definition search_evaluation :: "(js_error + json) fetch_outcome \<Rightarrow> page \<Rightarrow> page" where
  "search_evaluation r p =
     (case search p of
        None \<Rightarrow> p
      | Some v \<Rightarrow>
          (let p0 = p\<lparr>evaluations := evaluations p @ [v]\<rparr>;
               raw = toLowerCase (trim v)
           in if raw = [] then renderSearchResults None p0
              else
                (case loadSearchPokedex r p0 of
                   (Inl e, p1) \<Rightarrow> p1
                 | (Inr pokedex, p1) \<Rightarrow>
                     (case object_keys (if truthy pokedex then pokedex else JObj []) of
                        Inl e \<Rightarrow> p1
                      | Inr names \<Rightarrow> renderSearchResults (Some (matches_of raw names)) p1))))"

text \<open>Time passes until \<open>t\<close>: the timeouts due by then run, in the order they are due.\<close>

definition elapse :: "(js_error + json) fetch_outcome \<Rightarrow> nat \<Rightarrow> page \<Rightarrow> page" where
  "elapse r t p =
     fold (\<lambda>_. search_evaluation r)
       (sort_key snd (filter (\<lambda>(i, d). d \<le> t) (timers p)))
       (p\<lparr>timers := filter (\<lambda>(i, d). \<not> d \<le> t) (timers p), clock := max (clock p) t\<rparr>)"

text \<open>A keystroke at time \<open>t\<close> that leaves \<open>v\<close> in the input, and the \<open>input\<close> event it raises.\<close>

definition keystroke :: "(js_error + json) fetch_outcome \<Rightarrow> nat \<times> string \<Rightarrow> page \<Rightarrow> page" where
  "keystroke r k p =
     (let p1 = elapse r (fst k) p;
          p2 = p1\<lparr>search := map_option (\<lambda>_. snd k) (search p1)\<rparr>
      in if SearchInput \<in> set (listeners p2) then searchPokemon p2 else p2)"

definition typing :: "(js_error + json) fetch_outcome \<Rightarrow> (nat \<times> string) list \<Rightarrow> page \<Rightarrow> page" where
  "typing r ks p = fold (keystroke r) ks p"

text \<open>Keystrokes in time order, each less than 120 ms after the one before.\<close>

fun rapid :: "(nat \<times> string) list \<Rightarrow> bool" where
  "rapid [] = True"
| "rapid [k] = True"
| "rapid (k # k' # ks) = (fst k \<le> fst k' \<and> fst k' < fst k + 120 \<and> rapid (k' # ks))"

subsection \<open>Clicks and the Enter key\<close>

datatype target = OnRow nat | OnInput | InBox | Elsewhere

definition detail_url :: "string \<Rightarrow> string" where
  "detail_url name = ''pokemon.html?name='' @ encodeURIComponent name"

text \<open>The click handler of a result row; a URIError leaves the page where it is.\<close>

definition result_click :: "result_row \<Rightarrow> page \<Rightarrow> page" where
  "result_click row p =
     (case decodeURIComponent (data_name row) of
        Inl e \<Rightarrow> p
      | Inr name \<Rightarrow> p\<lparr>href := Some (detail_url name)\<rparr>)"

text \<open>The click handler of the document: only a target outside the box and other than the
  input passes its test.\<close>

definition document_click :: "target \<Rightarrow> page \<Rightarrow> page" where
  "document_click tg p =
     (case search_results p of
        None \<Rightarrow> p
      | Some box \<Rightarrow>
          (case search p of
             None \<Rightarrow> p
           | Some q \<Rightarrow>
               if tg = Elsewhere then p\<lparr>search_results := Some (box\<lparr>display := ''none''\<rparr>)\<rparr>
               else p))"

text \<open>A click: the handler of the row clicked, then, as the event bubbles, the document's.\<close>

definition click :: "target \<Rightarrow> page \<Rightarrow> page" where
  "click tg p =
     (let p1 = (case tg of
                  OnRow i \<Rightarrow>
                    (case search_results p of
                       None \<Rightarrow> p
                     | Some box \<Rightarrow>
                         if i < length (rows box) then result_click (rows box ! i) p else p)
                | _ \<Rightarrow> p)
      in if DocumentClick \<in> set (listeners p1) then document_click tg p1 else p1)"

text \<open>\<open>document.querySelector("#search-results .result")\<close>.\<close>

definition first_result :: "page \<Rightarrow> result_row option" where
  "first_result p =
     (case search_results p of
        None \<Rightarrow> None
      | Some box \<Rightarrow> (case rows box of [] \<Rightarrow> None | row # _ \<Rightarrow> Some row))"

text \<open>The \<open>keydown\<close> handler of the input.\<close>

definition search_keydown :: "string \<Rightarrow> page \<Rightarrow> page" where
  "search_keydown key p =
     (if key = ''Enter'' then
        (case first_result p of
           Some first \<Rightarrow> click (OnRow 0) p
         | None \<Rightarrow>
             (case search p of
                None \<Rightarrow> p
              | Some v \<Rightarrow>
                  (let val = trim v
                   in if val \<noteq> [] then p\<lparr>href := Some (detail_url val)\<rparr> else p)))
      else p)"

text \<open>A key pressed in the input reaches the handler if one is wired.\<close>

definition keydown :: "string \<Rightarrow> page \<Rightarrow> page" where
  "keydown key p = (if SearchKeydown \<in> set (listeners p) then search_keydown key p else p)"

subsection \<open>setActiveHeaderLink\<close>

text \<open>\<open>window.location.pathname.split("/").pop() || "index.html"\<close>.\<close>

definition current_file :: "page \<Rightarrow> string" where
  "current_file p =
     (let last_segment = rev (takeWhile (\<lambda>c. c \<noteq> CHR ''/'') (rev (pathname p)))
      in if last_segment = [] then ''index.html'' else last_segment)"

definition all_links :: "link list" where
  "all_links = [LinkInfo, LinkPokedex, LinkMoves, LinkLocations, LinkAbilities]"

definition remove_active :: "link \<Rightarrow> (link \<Rightarrow> bool option) \<Rightarrow> (link \<Rightarrow> bool option)" where
  "remove_active l m = m(l := map_option (\<lambda>_. False) (m l))"

definition add_active :: "link \<Rightarrow> (link \<Rightarrow> bool option) \<Rightarrow> (link \<Rightarrow> bool option)" where
  "add_active l m = m(l := map_option (\<lambda>_. True) (m l))"

text \<open>The chain of tests on the file name, in the order of the source.\<close>

definition link_for :: "string \<Rightarrow> link" where
  "link_for path =
     (if startsWith path ''info'' then LinkInfo
      else if startsWith path ''index'' \<or> path = [] then LinkPokedex
      else if startsWith path ''moves'' \<or> startsWith path ''movedescriptions'' then LinkMoves
      else if startsWith path ''locations'' \<or> startsWith path ''trainer''
              \<or> startsWith path ''trainers'' \<or> startsWith path ''encounters'' then LinkLocations
      else if startsWith path ''abilities'' then LinkAbilities
      else LinkPokedex)"

definition setActiveHeaderLink :: "page \<Rightarrow> page" where
  "setActiveHeaderLink p =
     p\<lparr>nav := add_active (link_for (current_file p)) (fold remove_active all_links (nav p))\<rparr>"

subsection \<open>installHeaderFromFile\<close>

text \<open>
  The root element that header.html parses to, with what the script looks up in it.
  The layout step (the top padding of the body) is not part of the model.
\<close>

record fragment =
  frag_site_header :: bool
  frag_search :: "string option"
  frag_results :: "results_box option"
  frag_nav :: "link \<Rightarrow> bool option"

definition first_of :: "'a option \<Rightarrow> 'a option \<Rightarrow> 'a option" where
  "first_of a b = (case a of None \<Rightarrow> b | Some x \<Rightarrow> Some x)"

text \<open>The header becomes the first child of the body, so a lookup by id finds its elements first.\<close>

definition insert_header :: "fragment \<Rightarrow> page \<Rightarrow> page" where
  "insert_header f p =
     p\<lparr>site_header := (frag_site_header f \<or> site_header p),
       search := first_of (frag_search f) (search p),
       search_results := first_of (frag_results f) (search_results p),
       nav := (\<lambda>l. first_of (frag_nav f l) (nav p l))\<rparr>"

definition fallback_header :: fragment where
  "fallback_header =
     \<lparr>frag_site_header = True,
      frag_search = Some [],
      frag_results = Some \<lparr>display = [], rows = [], aria_hidden = ''true''\<rparr>,
      frag_nav = (\<lambda>l. None)\<rparr>"

text \<open>The body of the second \<open>then\<close>, from the insertion on.\<close>

definition install_fetched :: "fragment \<Rightarrow> page \<Rightarrow> page" where
  "install_fetched f p =
     (let p1 = insert_header f p;
          p2 = (if search p1 \<noteq> None
                then p1\<lparr>listeners := listeners p1 @ [SearchInput, SearchKeydown]\<rparr> else p1);
          p3 = p2\<lparr>listeners := listeners p2 @ [DocumentClick]\<rparr>
      in setActiveHeaderLink p3)"

text \<open>The body of the \<open>catch\<close>.\<close>

definition install_fallback :: "page \<Rightarrow> page" where
  "install_fallback p =
     (let p1 = insert_header fallback_header
                 (p\<lparr>warnings := warnings p @ [''Could not fetch header.html:'']\<rparr>);
          p2 = (if search p1 \<noteq> None
                then p1\<lparr>listeners := listeners p1 @ [SearchInput]\<rparr> else p1)
      in setActiveHeaderLink p2)"

text \<open>The body of the response is the first element child of the parsed text, if any.\<close>

definition installHeaderFromFile :: "fragment option fetch_outcome \<Rightarrow> page \<Rightarrow> page" where
  "installHeaderFromFile r p =
     (if site_header p then setActiveHeaderLink p
      else
        (case r of
           Rejected \<Rightarrow> install_fallback p
         | Response ok body \<Rightarrow>
             if \<not> ok then install_fallback p
             else (case body of None \<Rightarrow> p | Some f \<Rightarrow> install_fetched f p)))"

text \<open>A page before the script has run: nothing of the header is there yet.\<close>

definition blank_page :: page where
  "blank_page =
     \<lparr>pathname = ''/index.html'', site_header = False, search = None, search_results = None,
      nav = (\<lambda>l. None), href = None, listeners = [], searchPokedex = JNull, fetches = 0,
      warnings = [], searchDebounceTimer = None, timers = [], next_timer = 1, clock = 0,
      evaluations = []\<rparr>"

subsection \<open>Notions used in the statements\<close>

text \<open>A fetch of the data file that fails: the fetch throws, the response is not a
  success, or its body does not parse.\<close>

definition failed_fetch :: "(js_error + json) fetch_outcome \<Rightarrow> bool" where
  "failed_fetch r =
     (case r of
        Rejected \<Rightarrow> True
      | Response ok body \<Rightarrow> (if ok then (case body of Inl e \<Rightarrow> True | Inr v \<Rightarrow> False) else True))"

text \<open>A successful fetch whose body parses to \<open>v\<close>.\<close>

definition parsed :: "json \<Rightarrow> (js_error + json) fetch_outcome" where
  "parsed v = Response True (Inr v)"


text \<open>\<open>setActiveHeaderLink\<close> marks the link \<open>t\<close> and no other: afterwards each of the five
  links that is in the document is active exactly if it is \<open>t\<close>, and an absent link is
  still absent.\<close>

definition activates :: "page \<Rightarrow> link \<Rightarrow> bool" where
  "activates p t =
     list_all (\<lambda>l. nav (setActiveHeaderLink p) l = map_option (\<lambda>_. l = t) (nav p l)) all_links"

text \<open>A page with the fetched header installed, \<open>q\<close> in the input and \<open>idx\<close> cached.\<close>

definition search_page :: "string \<Rightarrow> json \<Rightarrow> page" where
  "search_page q idx =
     blank_page\<lparr>site_header := True, search := Some q,
       search_results := Some \<lparr>display = [], rows = [], aria_hidden = ''true''\<rparr>,
       listeners := [SearchInput, SearchKeydown, DocumentClick],
       searchPokedex := idx\<rparr>"

text \<open>The blank page after \<open>installHeaderFromFile\<close> has run, with \<open>q\<close> typed into the input:
  once with the fetch of header.html rejected, so that the \<open>catch\<close> built the header, and
  once with the same header fetched.\<close>

definition fallback_page :: "string \<Rightarrow> page" where
  "fallback_page q = (installHeaderFromFile Rejected blank_page)\<lparr>search := Some q\<rparr>"

definition fetched_page :: "string \<Rightarrow> page" where
  "fetched_page q =
     (installHeaderFromFile (Response True (Some fallback_header)) blank_page)\<lparr>search := Some q\<rparr>"

section \<open>Properties\<close>

lemma startsWith_prefix: "startsWith s p = prefix p s"
  by (induction s p rule: startsWith.induct) auto

subsection \<open>The loader\<close>

lemma loadSearchPokedex_cached:
  "truthy (searchPokedex p) \<Longrightarrow> loadSearchPokedex r p = (Inr (searchPokedex p), p)"
  by (simp add: loadSearchPokedex_def)

lemma loadSearchPokedex_caches:
  "loadSearchPokedex r p = (Inr v, p') \<Longrightarrow> searchPokedex p' = v"
  by (auto simp: loadSearchPokedex_def fetch_pokedex_def Let_def
           split: if_splits fetch_outcome.splits sum.splits)

lemma load_all_cached:
  "truthy (searchPokedex p) \<Longrightarrow> load_all rs p = (replicate (length rs) (Inr (searchPokedex p)), p)"
  by (induction rs) (simp_all add: loadSearchPokedex_cached)

lemma loadSearchPokedex_failed:
  assumes "failed_fetch r" and "\<not> truthy (searchPokedex p)"
  shows "loadSearchPokedex r p =
           (Inr (JObj []),
            p\<lparr>fetches := Suc (fetches p),
              warnings := warnings p @ [''Header search: could not load pokedex.json:''],
              searchPokedex := JObj []\<rparr>)"
  using assms
  by (auto simp: loadSearchPokedex_def fetch_pokedex_def failed_fetch_def Let_def
           split: fetch_outcome.splits sum.splits if_splits)

lemma loadSearchPokedex_parsed:
  assumes "\<not> truthy (searchPokedex p)"
  shows "loadSearchPokedex (parsed v) p = (Inr v, p\<lparr>fetches := Suc (fetches p), searchPokedex := v\<rparr>)"
  using assms by (simp add: loadSearchPokedex_def fetch_pokedex_def parsed_def Let_def)

text \<open>
  C4. \<open>loadSearchPokedex\<close> never rejects: whatever the network answers and whatever the
  page is, the promise resolves. When the fetch fails (it throws, the response is not a
  success, or the body does not parse) and nothing is cached, it resolves to the empty
  object, which it also caches, and logs one warning.
\<close>

theorem loadSearchPokedex_never_rejects:
  "(\<exists>v. fst (loadSearchPokedex r p) = Inr v) \<and>
   (failed_fetch r \<and> \<not> truthy (searchPokedex p) \<longrightarrow>
      fst (loadSearchPokedex r p) = Inr (JObj []) \<and>
      searchPokedex (snd (loadSearchPokedex r p)) = JObj [] \<and>
      warnings (snd (loadSearchPokedex r p)) =
        warnings p @ [''Header search: could not load pokedex.json:''])"
proof (intro conjI impI)
  show "\<exists>v. fst (loadSearchPokedex r p) = Inr v"
    by (auto simp: loadSearchPokedex_def split: prod.splits sum.splits)
next
  assume a: "failed_fetch r \<and> \<not> truthy (searchPokedex p)"
  then show "fst (loadSearchPokedex r p) = Inr (JObj [])"
    and "searchPokedex (snd (loadSearchPokedex r p)) = JObj []"
    and "warnings (snd (loadSearchPokedex r p)) =
        warnings p @ [''Header search: could not load pokedex.json:'']"
    by (simp_all add: loadSearchPokedex_failed)
qed

theorem loadSearchPokedex_never_rejects_witness:
  "failed_fetch (Response False (Inr (JObj [(''Charmander'', JNull)]))) \<and>
   \<not> truthy (searchPokedex blank_page) \<and>
   fst (loadSearchPokedex (Response False (Inr (JObj [(''Charmander'', JNull)]))) blank_page)
     = Inr (JObj []) \<and>
   warnings (snd (loadSearchPokedex (Response False (Inr (JObj [(''Charmander'', JNull)]))) blank_page))
     = [''Header search: could not load pokedex.json:'']"
  using loadSearchPokedex_never_rejects
          [of "Response False (Inr (JObj [(''Charmander'', JNull)]))" blank_page]
  by (simp add: failed_fetch_def blank_page_def)

text \<open>
  C7, as the code has it. Once a call has resolved to a truthy value (any object, so any
  name index, and the empty object of the failure path), every later call returns that
  same value and leaves the page as it is: no fetch is issued, whatever the network would
  answer. In particular, after a failed fetch the later calls all return the empty object
  and the number of fetches stays at one: there is no retry.
\<close>
theorem loadSearchPokedex_at_most_once:
  "(loadSearchPokedex r p = (Inr v, p') \<and> truthy v \<longrightarrow>
      load_all rs p' = (replicate (length rs) (Inr v), p')) \<and>
   (failed_fetch r \<and> \<not> truthy (searchPokedex p) \<longrightarrow>
      fst (load_all rs (snd (loadSearchPokedex r p))) = replicate (length rs) (Inr (JObj [])) \<and>
      fetches (snd (load_all rs (snd (loadSearchPokedex r p)))) = Suc (fetches p))"
proof (intro conjI impI)
  assume a: "loadSearchPokedex r p = (Inr v, p') \<and> truthy v"
  then have "searchPokedex p' = v" by (auto dest: loadSearchPokedex_caches)
  with a show "load_all rs p' = (replicate (length rs) (Inr v), p')"
    using load_all_cached [of p' rs] by simp
next
  assume a: "failed_fetch r \<and> \<not> truthy (searchPokedex p)"
  then show "fst (load_all rs (snd (loadSearchPokedex r p))) = replicate (length rs) (Inr (JObj []))"
    by (simp add: loadSearchPokedex_failed load_all_cached)
  from a show "fetches (snd (load_all rs (snd (loadSearchPokedex r p)))) = Suc (fetches p)"
    by (simp add: loadSearchPokedex_failed load_all_cached)
qed

theorem loadSearchPokedex_at_most_once_witness:
  "loadSearchPokedex (parsed (JObj [(''Charmander'', JNull)])) blank_page =
     (Inr (JObj [(''Charmander'', JNull)]),
      blank_page\<lparr>fetches := 1, searchPokedex := JObj [(''Charmander'', JNull)]\<rparr>) \<and>
   truthy (JObj [(''Charmander'', JNull)]) \<and>
   load_all [Rejected, parsed JNull]
       (blank_page\<lparr>fetches := 1, searchPokedex := JObj [(''Charmander'', JNull)]\<rparr>) =
     ([Inr (JObj [(''Charmander'', JNull)]), Inr (JObj [(''Charmander'', JNull)])],
      blank_page\<lparr>fetches := 1, searchPokedex := JObj [(''Charmander'', JNull)]\<rparr>) \<and>
   failed_fetch Rejected \<and> \<not> truthy (searchPokedex blank_page) \<and>
   fetches (snd (load_all [parsed (JObj [(''Charmander'', JNull)]), Rejected]
                  (snd (loadSearchPokedex Rejected blank_page)))) = 1"
  using loadSearchPokedex_at_most_once
          [of "parsed (JObj [(''Charmander'', JNull)])" blank_page
              "JObj [(''Charmander'', JNull)]"
              "blank_page\<lparr>fetches := 1, searchPokedex := JObj [(''Charmander'', JNull)]\<rparr>"
              "[Rejected, parsed JNull]"]
        loadSearchPokedex_at_most_once
          [of Rejected blank_page _ _ "[parsed (JObj [(''Charmander'', JNull)]), Rejected]"]
  by (simp add: loadSearchPokedex_parsed failed_fetch_def blank_page_def)

text \<open>
  Without the restriction to truthy values the statement fails: when the data file parses to
  \<open>null\<close>, the first call resolves to \<open>null\<close> after one fetch, and the second call
  fetches again.
\<close>

theorem loadSearchPokedex_null_counterexample:
  "fst (loadSearchPokedex (parsed JNull) blank_page) = Inr JNull \<and>
   fetches (snd (loadSearchPokedex (parsed JNull) blank_page)) = 1 \<and>
   fetches (snd (loadSearchPokedex (parsed JNull)
                   (snd (loadSearchPokedex (parsed JNull) blank_page)))) = 2"
  by (simp add: loadSearchPokedex_parsed blank_page_def)

text \<open>A call that finds a falsy value cached issues a fetch, whatever the answer.\<close>

lemma loadSearchPokedex_fetches:
  "\<not> truthy (searchPokedex p) \<Longrightarrow> fetches (snd (loadSearchPokedex r p)) = Suc (fetches p)"
  by (simp add: loadSearchPokedex_def fetch_pokedex_def Let_def
        split: fetch_outcome.splits sum.splits)

text \<open>Calls that each find a falsy value cached and get a falsy value from the network.\<close>

lemma load_all_falsy:
  "\<not> truthy (searchPokedex p) \<Longrightarrow> list_all (\<lambda>v. \<not> truthy v) vs \<Longrightarrow>
   load_all (map parsed vs) p =
     (map Inr vs, p\<lparr>fetches := fetches p + length vs,
                     searchPokedex := (if vs = [] then searchPokedex p else last vs)\<rparr>)"
proof (induction vs arbitrary: p)
  case Nil
  then show ?case by simp
next
  case (Cons v vs)
  let ?p1 = "p\<lparr>fetches := Suc (fetches p), searchPokedex := v\<rparr>"
  have 1: "loadSearchPokedex (parsed v) p = (Inr v, ?p1)"
    using Cons.prems(1) by (rule loadSearchPokedex_parsed)
  have 2: "\<not> truthy (searchPokedex ?p1)" using Cons.prems(2) by simp
  have 3: "list_all (\<lambda>v. \<not> truthy v) vs" using Cons.prems(2) by simp
  show ?case
    using Cons.IH [OF 2 3] 1 by simp
qed

text \<open>
  C10. When the data file parses to a falsy value (\<open>null\<close>, \<open>false\<close>, zero, the empty
  string), the loader resolves to that value, not to the empty object; the cache still
  holds a falsy value afterwards, so the test at the head of the loader does not see it as
  loaded, and every call issues a fetch of its own: \<open>n\<close> such calls make \<open>n\<close> fetches,
  and the call after them fetches again, whatever the network answers then.
\<close>

theorem falsy_pokedex_fetched_again:
  assumes "\<not> truthy (searchPokedex p)" and "list_all (\<lambda>v. \<not> truthy v) vs"
  shows "fst (load_all (map parsed vs) p) = map Inr vs \<and>
         fetches (snd (load_all (map parsed vs) p)) = fetches p + length vs \<and>
         \<not> truthy (searchPokedex (snd (load_all (map parsed vs) p))) \<and>
         (\<forall>r. fetches (snd (loadSearchPokedex r (snd (load_all (map parsed vs) p))))
                = Suc (fetches p + length vs))"
proof -
  let ?p = "snd (load_all (map parsed vs) p)"
  have a: "fst (load_all (map parsed vs) p) = map Inr vs"
    and b: "fetches ?p = fetches p + length vs"
    and c: "\<not> truthy (searchPokedex ?p)"
    using assms load_all_falsy [OF assms]
    by (cases "vs = []"; simp add: list_all_iff)+
  have "fetches (snd (loadSearchPokedex r ?p)) = Suc (fetches ?p)" for r
    using c by (rule loadSearchPokedex_fetches)
  then show ?thesis using a b c by simp
qed

theorem falsy_pokedex_fetched_again_witness:
  "\<not> truthy (searchPokedex blank_page) \<and>
   list_all (\<lambda>v. \<not> truthy v) [JNull, JBool False, JNum 0, JStr []] \<and>
   fst (load_all (map parsed [JNull, JBool False, JNum 0, JStr []]) blank_page)
     = [Inr JNull, Inr (JBool False), Inr (JNum 0), Inr (JStr [])] \<and>
   fetches (snd (load_all (map parsed [JNull, JBool False, JNum 0, JStr []]) blank_page)) = 4"
  using falsy_pokedex_fetched_again [of blank_page "[JNull, JBool False, JNum 0, JStr []]"]
  by (simp add: blank_page_def)

subsection \<open>The active link\<close>


lemma nav_setActiveHeaderLink:
  "nav (setActiveHeaderLink p) l = map_option (\<lambda>_. l = link_for (current_file p)) (nav p l)"
  by (cases l; cases "link_for (current_file p)"; cases "nav p l")
     (simp_all add: setActiveHeaderLink_def all_links_def remove_active_def add_active_def)

lemma activates_link_for: "activates p (link_for (current_file p))"
  by (simp add: activates_def all_links_def nav_setActiveHeaderLink)

lemma current_file_last_segment:
  assumes "pathname p = dir @ ''/'' @ name" and "CHR ''/'' \<notin> set name"
  shows "current_file p = (if name = [] then ''index.html'' else name)"
proof -
  have "takeWhile (\<lambda>c. c \<noteq> CHR ''/'') (rev name @ CHR ''/'' # rev dir) = rev name"
    using assms(2) by (auto simp: takeWhile_append2 takeWhile_tail)
  then show ?thesis using assms(1) by (simp add: current_file_def)
qed

lemma link_for_prefix:
  "prefix ''info'' f \<Longrightarrow> link_for f = LinkInfo"
  "prefix ''index'' f \<Longrightarrow> link_for f = LinkPokedex"
  "prefix ''moves'' f \<Longrightarrow> link_for f = LinkMoves"
  "prefix ''movedescriptions'' f \<Longrightarrow> link_for f = LinkMoves"
  "prefix ''locations'' f \<Longrightarrow> link_for f = LinkLocations"
  "prefix ''trainer'' f \<Longrightarrow> link_for f = LinkLocations"
  "prefix ''encounters'' f \<Longrightarrow> link_for f = LinkLocations"
  "prefix ''abilities'' f \<Longrightarrow> link_for f = LinkAbilities"
  by (auto simp: link_for_def prefix_def)

lemma link_for_other:
  assumes "\<not> prefix ''info'' f" "\<not> prefix ''index'' f" "\<not> prefix ''moves'' f"
    "\<not> prefix ''movedescriptions'' f" "\<not> prefix ''locations'' f" "\<not> prefix ''trainer'' f"
    "\<not> prefix ''encounters'' f" "\<not> prefix ''abilities'' f"
  shows "link_for f = LinkPokedex"
proof -
  have "\<not> prefix ''trainers'' f"
    using assms(6) by (auto simp: prefix_def)
  with assms show ?thesis by (simp add: link_for_def startsWith_prefix)
qed

text \<open>
  C2, as the code has it. The file name is the part of the path after its last slash,
  or \<open>index.html\<close> when that part is empty. \<open>setActiveHeaderLink\<close> clears the five links
  and then marks exactly one of them, by the prefix of the file name: \<open>info\<close> marks the
  info link; \<open>index\<close> the pokedex link; \<open>moves\<close> or \<open>movedescriptions\<close> the moves link;
  \<open>locations\<close>, \<open>trainer\<close> (so \<open>trainers\<close> too) or \<open>encounters\<close> the locations link;
  \<open>abilities\<close> the abilities link; any other name marks the pokedex link. A link that is
  not in the document is skipped.
\<close>

theorem setActiveHeaderLink_rules:
  "(\<forall>dir name. pathname p = dir @ ''/'' @ name \<and> CHR ''/'' \<notin> set name \<longrightarrow>
      current_file p = (if name = [] then ''index.html'' else name)) \<and>
   (prefix ''info'' (current_file p) \<longrightarrow> activates p LinkInfo) \<and>
   (prefix ''index'' (current_file p) \<longrightarrow> activates p LinkPokedex) \<and>
   (prefix ''moves'' (current_file p) \<or> prefix ''movedescriptions'' (current_file p) \<longrightarrow>
      activates p LinkMoves) \<and>
   (prefix ''locations'' (current_file p) \<or> prefix ''trainer'' (current_file p)
      \<or> prefix ''encounters'' (current_file p) \<longrightarrow> activates p LinkLocations) \<and>
   (prefix ''abilities'' (current_file p) \<longrightarrow> activates p LinkAbilities) \<and>
   (\<not> prefix ''info'' (current_file p) \<and> \<not> prefix ''index'' (current_file p) \<and>
    \<not> prefix ''moves'' (current_file p) \<and> \<not> prefix ''movedescriptions'' (current_file p) \<and>
    \<not> prefix ''locations'' (current_file p) \<and> \<not> prefix ''trainer'' (current_file p) \<and>
    \<not> prefix ''encounters'' (current_file p) \<and> \<not> prefix ''abilities'' (current_file p) \<longrightarrow>
      activates p LinkPokedex)"
proof -
  have a: "activates p (link_for (current_file p))" by (rule activates_link_for)
  have "\<forall>dir name. pathname p = dir @ ''/'' @ name \<and> CHR ''/'' \<notin> set name \<longrightarrow>
      current_file p = (if name = [] then ''index.html'' else name)"
    using current_file_last_segment by blast
  moreover have "prefix ''info'' (current_file p) \<longrightarrow> activates p LinkInfo"
    using a link_for_prefix(1) [of "current_file p"] by auto
  moreover have "prefix ''index'' (current_file p) \<longrightarrow> activates p LinkPokedex"
    using a link_for_prefix(2) [of "current_file p"] by auto
  moreover have "prefix ''moves'' (current_file p) \<or> prefix ''movedescriptions'' (current_file p) \<longrightarrow>
      activates p LinkMoves"
    using a link_for_prefix(3,4) [of "current_file p"] by auto
  moreover have "prefix ''locations'' (current_file p) \<or> prefix ''trainer'' (current_file p)
      \<or> prefix ''encounters'' (current_file p) \<longrightarrow> activates p LinkLocations"
    using a link_for_prefix(5,6,7) [of "current_file p"] by auto
  moreover have "prefix ''abilities'' (current_file p) \<longrightarrow> activates p LinkAbilities"
    using a link_for_prefix(8) [of "current_file p"] by auto
  moreover have "\<not> prefix ''info'' (current_file p) \<and> \<not> prefix ''index'' (current_file p) \<and>
    \<not> prefix ''moves'' (current_file p) \<and> \<not> prefix ''movedescriptions'' (current_file p) \<and>
    \<not> prefix ''locations'' (current_file p) \<and> \<not> prefix ''trainer'' (current_file p) \<and>
    \<not> prefix ''encounters'' (current_file p) \<and> \<not> prefix ''abilities'' (current_file p) \<longrightarrow>
      activates p LinkPokedex"
    using a link_for_other [of "current_file p"] by auto
  ultimately show ?thesis by blast
qed

lemma current_file_moves:
  "current_file (blank_page\<lparr>pathname := ''/pokedex/moves.html'', nav := m\<rparr>) = ''moves.html''"
  by (simp add: current_file_def blank_page_def)

theorem setActiveHeaderLink_rules_witness:
  "pathname (blank_page\<lparr>pathname := ''/pokedex/moves.html'', nav := (\<lambda>l. Some (l = LinkInfo))\<rparr>)
      = ''/pokedex'' @ ''/'' @ ''moves.html'' \<and>
   CHR ''/'' \<notin> set ''moves.html'' \<and>
   current_file (blank_page\<lparr>pathname := ''/pokedex/moves.html'', nav := (\<lambda>l. Some (l = LinkInfo))\<rparr>)
      = ''moves.html'' \<and>
   prefix ''moves'' ''moves.html'' \<and>
   map (nav (setActiveHeaderLink
          (blank_page\<lparr>pathname := ''/pokedex/moves.html'', nav := (\<lambda>l. Some (l = LinkInfo))\<rparr>)))
       all_links
     = [Some False, Some False, Some True, Some False, Some False]"
  using setActiveHeaderLink_rules
          [of "blank_page\<lparr>pathname := ''/pokedex/moves.html'', nav := (\<lambda>l. Some (l = LinkInfo))\<rparr>"]
  by (simp add: current_file_moves activates_def all_links_def)

text \<open>
  The prefixes are those of the code, not \<open>move-descriptions\<close> and not only \<open>trainers\<close>:
  with all five links in the document, \<open>move-descriptions.html\<close> marks the pokedex link,
  not the moves link, and \<open>trainer.html\<close> marks the locations link, not the pokedex link.
  The lists give the five links in the order info, pokedex, moves, locations, abilities.
\<close>

theorem setActiveHeaderLink_counterexample:
  "map (nav (setActiveHeaderLink
          (blank_page\<lparr>pathname := ''/move-descriptions.html'', nav := (\<lambda>l. Some False)\<rparr>)))
       all_links
     = [Some False, Some True, Some False, Some False, Some False] \<and>
   map (nav (setActiveHeaderLink
          (blank_page\<lparr>pathname := ''/trainer.html'', nav := (\<lambda>l. Some False)\<rparr>)))
       all_links
     = [Some False, Some False, Some False, Some True, Some False]"
  by (simp add: nav_setActiveHeaderLink all_links_def current_file_def blank_page_def link_for_def)

subsection \<open>The handlers installed with the header\<close>

text \<open>
  C3. The specification asks for three handlers after either way of inserting the header. On a
  page without a header, when the fetch of header.html is rejected or answered without
  success, the \<open>catch\<close> inserts the built-in header and wires the \<open>input\<close> handler only:
  there is no \<open>keydown\<close> handler and no click handler on the document. The other path,
  here fed the same header as a fetched fragment, wires all three.
\<close>

theorem fallback_header_listeners:
  "listeners (installHeaderFromFile Rejected blank_page) = [SearchInput] \<and>
   listeners (installHeaderFromFile (Response False None) blank_page) = [SearchInput] \<and>
   listeners (installHeaderFromFile (Response True (Some fallback_header)) blank_page)
     = [SearchInput, SearchKeydown, DocumentClick]"
  by (simp add: installHeaderFromFile_def install_fallback_def install_fetched_def
        insert_header_def fallback_header_def first_of_def setActiveHeaderLink_def blank_page_def)

subsection \<open>Strings\<close>




lemma trim_empty_iff: "trim s = [] \<longleftrightarrow> list_all is_space s"
proof
  assume "list_all is_space s"
  then have "dropWhile is_space s = []" by (simp add: list_all_iff)
  then show "trim s = []" unfolding trim_def by (simp del: dropWhile_eq_Nil_conv)
next
  assume "trim s = []"
  then have a: "\<forall>x\<in>set (dropWhile is_space s). is_space x"
    by (simp add: trim_def)
  have "dropWhile is_space s = []"
  proof (rule ccontr)
    assume n: "dropWhile is_space s \<noteq> []"
    then have "\<not> is_space (hd (dropWhile is_space s))" by (rule hd_dropWhile)
    moreover have "hd (dropWhile is_space s) \<in> set (dropWhile is_space s)" using n by simp
    ultimately show False using a by blast
  qed
  then show "list_all is_space s" by (simp add: list_all_iff)
qed

subsection \<open>The match list\<close>













subsection \<open>The results box\<close>


lemma renderSearchResults_null:
  "search_results p = Some box \<Longrightarrow>
   renderSearchResults None p =
     p\<lparr>search_results := Some (box\<lparr>display := ''none'', rows := [], aria_hidden := ''true''\<rparr>)\<rparr>"
  by (simp add: renderSearchResults_def)

lemma search_evaluation_blank:
  assumes "search p = Some q" and "list_all is_space q" and "search_results p = Some box"
  shows "search_evaluation r p =
           p\<lparr>evaluations := evaluations p @ [q],
             search_results := Some (box\<lparr>display := ''none'', rows := [], aria_hidden := ''true''\<rparr>)\<rparr>"
proof -
  have "toLowerCase (trim q) = []"
    using assms(2) by (simp add: trim_empty_iff toLowerCase_def)
  then show ?thesis
    using assms(1,3) by (simp add: search_evaluation_def Let_def renderSearchResults_def)
qed

lemma elapse_single:
  "timers p = [(h, d)] \<Longrightarrow> d \<le> t \<Longrightarrow>
   elapse r t p = search_evaluation r (p\<lparr>timers := [], clock := max (clock p) t\<rparr>)"
  by (simp add: elapse_def)

text \<open>
  C8. When the search evaluation runs on an input that is empty or holds white space only,
  and the results box is in the document, the box ends hidden and empty: its display is
  \<open>none\<close>, it has no rows, and its aria-hidden attribute is \<open>true\<close>. The loader is not
  called: no fetch is issued and the cache is untouched. The same holds when the
  evaluation runs as the pending timeout, once its time has come.
\<close>

theorem search_evaluation_blank_query:
  assumes "search p = Some q" and "list_all is_space q" and "search_results p = Some box"
  shows "search_results (search_evaluation r p)
           = Some (box\<lparr>display := ''none'', rows := [], aria_hidden := ''true''\<rparr>) \<and>
         fetches (search_evaluation r p) = fetches p \<and>
         searchPokedex (search_evaluation r p) = searchPokedex p \<and>
         (timers p = [(h, d)] \<and> d \<le> t \<longrightarrow>
            search_results (elapse r t p)
              = Some (box\<lparr>display := ''none'', rows := [], aria_hidden := ''true''\<rparr>) \<and>
            fetches (elapse r t p) = fetches p \<and>
            searchPokedex (elapse r t p) = searchPokedex p)"
proof -
  have a: "search_evaluation r p' =
           p'\<lparr>evaluations := evaluations p' @ [q],
              search_results := Some (box\<lparr>display := ''none'', rows := [], aria_hidden := ''true''\<rparr>)\<rparr>"
    if "search p' = Some q" and "search_results p' = Some box" for p'
    using that(1) assms(2) that(2) by (rule search_evaluation_blank)
  have 1: "search_results (search_evaluation r p)
           = Some (box\<lparr>display := ''none'', rows := [], aria_hidden := ''true''\<rparr>)"
    "fetches (search_evaluation r p) = fetches p"
    "searchPokedex (search_evaluation r p) = searchPokedex p"
    using a [of p] assms by simp_all
  have 2: "search_results (elapse r t p)
              = Some (box\<lparr>display := ''none'', rows := [], aria_hidden := ''true''\<rparr>) \<and>
            fetches (elapse r t p) = fetches p \<and>
            searchPokedex (elapse r t p) = searchPokedex p"
    if "timers p = [(h, d)]" and "d \<le> t"
    using a [of "p\<lparr>timers := [], clock := max (clock p) t\<rparr>"] assms elapse_single [OF that, of r]
    by simp
  show ?thesis using 1 2 by blast
qed

theorem search_evaluation_blank_query_witness:
  "search (search_page [CHR '' '', CHR 0x09, CHR 0xA0] JNull) = Some [CHR '' '', CHR 0x09, CHR 0xA0] \<and>
   list_all is_space [CHR '' '', CHR 0x09, CHR 0xA0] \<and>
   search_results (search_evaluation Rejected (search_page [CHR '' '', CHR 0x09, CHR 0xA0] JNull))
     = Some \<lparr>display = ''none'', rows = [], aria_hidden = ''true''\<rparr> \<and>
   fetches (search_evaluation Rejected (search_page [CHR '' '', CHR 0x09, CHR 0xA0] JNull)) = 0 \<and>
   timers ((search_page [] JNull)\<lparr>timers := [(1, 120)]\<rparr>) = [(1, 120)] \<and>
   search_results (elapse Rejected 120 ((search_page [] JNull)\<lparr>timers := [(1, 120)]\<rparr>))
     = Some \<lparr>display = ''none'', rows = [], aria_hidden = ''true''\<rparr>"
  using search_evaluation_blank_query
          [of "search_page [CHR '' '', CHR 0x09, CHR 0xA0] JNull" "[CHR '' '', CHR 0x09, CHR 0xA0]"
              "\<lparr>display = [], rows = [], aria_hidden = ''true''\<rparr>" Rejected]
        search_evaluation_blank_query
          [of "(search_page [] JNull)\<lparr>timers := [(1, 120)]\<rparr>" "[]"
              "\<lparr>display = [], rows = [], aria_hidden = ''true''\<rparr>" Rejected 1 120 120]
  by (simp add: search_page_def blank_page_def is_space_def)

text \<open>
  C9. The specification asks that the display of the box and its aria-hidden attribute agree in
  every reachable state. Rendering a match list shows the box (display \<open>block\<close>,
  aria-hidden \<open>false\<close>); a click outside the box and the input then sets the display to
  \<open>none\<close> and nothing else: the box is hidden while aria-hidden is still \<open>false\<close>, and its
  rows are still there. \<open>renderSearchResults\<close> sets all three when it hides the box.
\<close>

theorem click_away_aria_hidden:
  "search_results (renderSearchResults (Some [''Charmander'']) (search_page ''char'' JNull))
     = Some \<lparr>display = ''block'', rows = [result_of ''Charmander''], aria_hidden = ''false''\<rparr> \<and>
   search_results (click Elsewhere
       (renderSearchResults (Some [''Charmander'']) (search_page ''char'' JNull)))
     = Some \<lparr>display = ''none'', rows = [result_of ''Charmander''], aria_hidden = ''false''\<rparr>"
  by (simp add: renderSearchResults_def html_rows_def plain_text_def search_page_def blank_page_def
        click_def document_click_def)

subsection \<open>The Enter key\<close>

text \<open>Decoding what \<open>encodeURIComponent\<close> wrote gives the string back.\<close>


lemma hex_value_hex_digit: "k < 16 \<Longrightarrow> hex_value (hex_digit k) = Some k"
  by (auto simp: hex_value_def hex_digit_def Let_def)

lemma decode_escape_low:
  assumes "b < 128"
  shows "decodeURIComponent (percent b @ t) = prepend (char_of b) (decodeURIComponent t)"
proof -
  have "b div 16 < 16" "b mod 16 < 16" using assms by simp_all
  then show ?thesis using assms
    by (simp add: percent_def hex_value_hex_digit)
qed

lemma decode_escape_two:
  assumes "b1 = 194 \<or> b1 = 195" and "128 \<le> b2" and "b2 < 192"
  shows "decodeURIComponent (percent b1 @ percent b2 @ t)
           = prepend (char_of ((b1 - 192) * 64 + (b2 - 128))) (decodeURIComponent t)"
proof -
  have h: "b2 div 16 < 16" "b2 mod 16 < 16"
    using assms(3) by simp_all
  have m: "16 * (b2 div 16) + b2 mod 16 = b2" by simp
  from assms(1) show ?thesis
  proof
    assume "b1 = 194"
    then show ?thesis using assms(2,3)
      by (simp add: percent_def hex_value_hex_digit h m del: mult_div_mod_eq)
  next
    assume "b1 = 195"
    then show ?thesis using assms(2,3)
      by (simp add: percent_def hex_value_hex_digit h m del: mult_div_mod_eq)
  qed
qed


lemma decode_encode_char:
  "decodeURIComponent (encode_char c @ t) = prepend c (decodeURIComponent t)"
proof (cases "unreserved c")
  case True
  then have "c \<noteq> CHR ''%''" by (auto simp: unreserved_def)
  then show ?thesis using True by (simp add: encode_char_def)
next
  case False
  let ?n = "of_char c :: nat"
  have c: "char_of ?n = c" by simp
  show ?thesis
  proof (cases "?n < 128")
    case True
    have e: "encode_char c = percent ?n"
      using False True by (simp add: encode_char_def utf8_def)
    show ?thesis
      unfolding e using decode_escape_low [OF True, of t] unfolding c .
  next
    case high: False
    have lt: "?n < 256" by (rule nat_of_char_less_256)
    have "128 div 64 \<le> ?n div 64" using high by (intro div_le_mono) simp
    moreover have "?n div 64 < 4" using lt by (simp add: div_less_iff_less_mult)
    ultimately have 1: "192 + ?n div 64 = 194 \<or> 192 + ?n div 64 = 195" by auto
    have 2: "128 \<le> 128 + ?n mod 64" by simp
    have 3: "128 + ?n mod 64 < 192" by simp
    have e: "encode_char c @ t = percent (192 + ?n div 64) @ percent (128 + ?n mod 64) @ t"
      using False high by (simp add: encode_char_def utf8_def Let_def)
    have v: "(192 + ?n div 64 - 192) * 64 + (128 + ?n mod 64 - 128) = ?n" by simp
    show ?thesis
      unfolding e using decode_escape_two [OF 1 2 3, of t] unfolding v c .
  qed
qed

lemma decode_encode: "decodeURIComponent (encodeURIComponent s) = Inr s"
proof (induction s)
  case Nil
  then show ?case by (simp add: encodeURIComponent_def)
next
  case (Cons c s)
  have "encodeURIComponent (c # s) = encode_char c @ encodeURIComponent s"
    by (simp add: encodeURIComponent_def)
  then show ?case using Cons.IH by (simp add: decode_encode_char prepend_def)
qed


lemma result_click_rendered:
  "result_click (result_of name) p = p\<lparr>href := Some (detail_url name)\<rparr>"
  by (simp add: result_click_def result_of_def decode_encode)

lemma document_click_inside: "tg \<noteq> Elsewhere \<Longrightarrow> document_click tg p = p"
  by (simp add: document_click_def split: option.splits)

lemma click_first_result:
  assumes "first_result p = Some (result_of name)"
  shows "click (OnRow 0) p = p\<lparr>href := Some (detail_url name)\<rparr>"
proof -
  obtain box rest where b: "search_results p = Some box" and r: "rows box = result_of name # rest"
    using assms by (auto simp: first_result_def split: option.splits list.splits)
  show ?thesis
    by (simp add: click_def b r result_click_rendered document_click_inside Let_def)
qed

text \<open>
  The \<open>keydown\<close> handler on Enter. It does what a click on the first result row does,
  when there is such a row; if that row is the one written for a name, this sets the
  location to \<open>pokemon.html?name=\<close> followed by the URL-encoded name. With no row, a
  non-empty trimmed input sets the location to the URL built from the trimmed text, and
  an empty one leaves the page as it is.
\<close>

lemma search_keydown_enter:
  "(first_result p = Some row \<longrightarrow> search_keydown ''Enter'' p = click (OnRow 0) p) \<and>
   (first_result p = Some (result_of name) \<longrightarrow>
      search_keydown ''Enter'' p
        = p\<lparr>href := Some (''pokemon.html?name='' @ encodeURIComponent name)\<rparr>) \<and>
   (first_result p = None \<and> search p = Some v \<and> trim v \<noteq> [] \<longrightarrow>
      search_keydown ''Enter'' p
        = p\<lparr>href := Some (''pokemon.html?name='' @ encodeURIComponent (trim v))\<rparr>) \<and>
   (first_result p = None \<and> search p = Some v \<and> trim v = [] \<longrightarrow>
      search_keydown ''Enter'' p = p)"
proof -
  have 1: "search_keydown ''Enter'' p = click (OnRow 0) p" if "first_result p = Some row" for row
    using that by (simp add: search_keydown_def)
  have 2: "search_keydown ''Enter'' p
        = p\<lparr>href := Some (''pokemon.html?name='' @ encodeURIComponent name)\<rparr>"
    if "first_result p = Some (result_of name)"
    using 1 [OF that] click_first_result [OF that] by (simp add: detail_url_def)
  have 3: "search_keydown ''Enter'' p
        = p\<lparr>href := Some (''pokemon.html?name='' @ encodeURIComponent (trim v))\<rparr>"
    if "first_result p = None \<and> search p = Some v \<and> trim v \<noteq> []"
    using that by (simp add: search_keydown_def detail_url_def)
  have 4: "search_keydown ''Enter'' p = p"
    if "first_result p = None \<and> search p = Some v \<and> trim v = []"
    using that by (simp add: search_keydown_def)
  show ?thesis using 1 2 3 4 by blast
qed

text \<open>Which handlers each way of inserting the header wires, on a page without a header.\<close>

lemma listeners_setActiveHeaderLink: "listeners (setActiveHeaderLink p) = listeners p"
  by (simp add: setActiveHeaderLink_def)

lemma installHeaderFromFile_fetched_listeners:
  assumes "\<not> site_header p" and "search (insert_header f p) \<noteq> None"
  shows "listeners (installHeaderFromFile (Response True (Some f)) p)
           = listeners p @ [SearchInput, SearchKeydown, DocumentClick]"
  using assms
  by (simp add: installHeaderFromFile_def install_fetched_def Let_def listeners_setActiveHeaderLink
        insert_header_def)

lemma installHeaderFromFile_fallback_listeners:
  assumes "\<not> site_header p" and "r = Rejected \<or> r = Response False body"
  shows "listeners (installHeaderFromFile r p) = listeners p @ [SearchInput]"
  using assms
  by (auto simp: installHeaderFromFile_def install_fallback_def Let_def listeners_setActiveHeaderLink
        insert_header_def fallback_header_def first_of_def)

lemma example_pikachu:
  "trim ''Pikachu'' = ''Pikachu''"
  "encodeURIComponent ''Pikachu'' = ''Pikachu''"
  by code_simp+

lemma fallback_page_simps:
  "listeners (fallback_page q) = [SearchInput]"
  "search (fallback_page q) = Some q"
  "search_results (fallback_page q) = Some \<lparr>display = [], rows = [], aria_hidden = ''true''\<rparr>"
  "href (fallback_page q) = None"
  by (simp_all add: fallback_page_def installHeaderFromFile_def install_fallback_def Let_def
        setActiveHeaderLink_def insert_header_def fallback_header_def first_of_def blank_page_def)

lemma fetched_page_simps:
  "listeners (fetched_page q) = [SearchInput, SearchKeydown, DocumentClick]"
  "search (fetched_page q) = Some q"
  "search_results (fetched_page q) = Some \<lparr>display = [], rows = [], aria_hidden = ''true''\<rparr>"
  "href (fetched_page q) = None"
  by (simp_all add: fetched_page_def installHeaderFromFile_def install_fetched_def Let_def
        setActiveHeaderLink_def insert_header_def fallback_header_def first_of_def blank_page_def)

lemma first_result_rendered:
  "search_results p = Some box \<Longrightarrow> plain_text name \<Longrightarrow>
   first_result (renderSearchResults (Some [name]) p) = Some (result_of name)"
  by (simp add: first_result_def renderSearchResults_def html_rows_def)

lemma listeners_renderSearchResults: "listeners (renderSearchResults ms p) = listeners p"
  by (simp add: renderSearchResults_def split: option.splits)

text \<open>
  C5. The specification asks that Enter in the search input navigates: to the first
  result when there is one, else to the page for the trimmed text when that is not
  empty. Only the path that inserts the fetched header wires the \<open>keydown\<close> handler.
  On the page where the \<open>catch\<close> built the header, Enter with \<open>Pikachu\<close> in the input and
  no result row, or with the row for Pikachu shown, leaves the page as it is, with no
  location set. On the page with the same header fetched, both set the location to
  \<open>pokemon.html?name=Pikachu\<close>.
\<close>

theorem enter_key_fallback_header:
  "first_result (fallback_page ''Pikachu'') = None \<and>
   search (fallback_page ''Pikachu'') = Some ''Pikachu'' \<and>
   trim ''Pikachu'' = ''Pikachu'' \<and>
   keydown ''Enter'' (fallback_page ''Pikachu'') = fallback_page ''Pikachu'' \<and>
   href (fallback_page ''Pikachu'') = None \<and>
   first_result (renderSearchResults (Some [''Pikachu'']) (fallback_page ''Pika''))
     = Some (result_of ''Pikachu'') \<and>
   keydown ''Enter'' (renderSearchResults (Some [''Pikachu'']) (fallback_page ''Pika''))
     = renderSearchResults (Some [''Pikachu'']) (fallback_page ''Pika'') \<and>
   href (renderSearchResults (Some [''Pikachu'']) (fallback_page ''Pika'')) = None \<and>
   href (keydown ''Enter'' (fetched_page ''Pikachu'')) = Some ''pokemon.html?name=Pikachu'' \<and>
   href (keydown ''Enter'' (renderSearchResults (Some [''Pikachu'']) (fetched_page ''Pika'')))
     = Some ''pokemon.html?name=Pikachu''"
proof -
  let ?box = "\<lparr>display = [], rows = [], aria_hidden = ''true''\<rparr>"
  have pl: "plain_text ''Pikachu''" by (simp add: plain_text_def)
  have 1: "first_result (fallback_page ''Pikachu'') = None"
    "first_result (fetched_page ''Pikachu'') = None"
    by (simp_all add: first_result_def fallback_page_simps fetched_page_simps)
  have 2: "keydown ''Enter'' p = p" if "listeners p = [SearchInput]" for p
    using that by (simp add: keydown_def)
  have 3: "first_result (renderSearchResults (Some [''Pikachu'']) (fallback_page ''Pika''))
             = Some (result_of ''Pikachu'')"
    "first_result (renderSearchResults (Some [''Pikachu'']) (fetched_page ''Pika''))
             = Some (result_of ''Pikachu'')"
    using pl by (simp_all add: first_result_rendered fallback_page_simps fetched_page_simps)
  have 4: "href (renderSearchResults (Some [''Pikachu'']) (fallback_page ''Pika'')) = None"
    by (simp add: renderSearchResults_def fallback_page_simps)
  have 5: "keydown ''Enter'' p = search_keydown ''Enter'' p"
    if "listeners p = [SearchInput, SearchKeydown, DocumentClick]" for p
    using that by (simp add: keydown_def)
  have 6: "href (keydown ''Enter'' (fetched_page ''Pikachu'')) = Some ''pokemon.html?name=Pikachu''"
    using search_keydown_enter [of "fetched_page ''Pikachu''" _ _ "''Pikachu''"] 1(2)
    by (simp add: 5 fetched_page_simps example_pikachu)
  have 7: "href (keydown ''Enter'' (renderSearchResults (Some [''Pikachu'']) (fetched_page ''Pika'')))
     = Some ''pokemon.html?name=Pikachu''"
    using search_keydown_enter
            [of "renderSearchResults (Some [''Pikachu'']) (fetched_page ''Pika'')" _ "''Pikachu''"] 3(2)
    by (simp add: 5 listeners_renderSearchResults fetched_page_simps example_pikachu)
  show ?thesis
    using 1(1) 3(1) 4 6 7
    by (simp add: 2 listeners_renderSearchResults fallback_page_simps example_pikachu)
qed

subsection \<open>The debounce timer\<close>

text \<open>What the search evaluation, the loader and the rendering leave untouched.\<close>


lemma renderSearchResults_frame:
  "evaluations (renderSearchResults ms p) = evaluations p"
  "timers (renderSearchResults ms p) = timers p"
  by (simp_all add: renderSearchResults_def split: option.splits)

lemma loadSearchPokedex_frame:
  "evaluations (snd (loadSearchPokedex r p)) = evaluations p"
  "timers (snd (loadSearchPokedex r p)) = timers p"
  by (simp_all add: loadSearchPokedex_def fetch_pokedex_def Let_def
        split: fetch_outcome.splits sum.splits prod.splits)

lemma search_evaluation_frame:
  assumes "search p = Some v"
  shows "evaluations (search_evaluation r p) = evaluations p @ [v]"
    and "timers (search_evaluation r p) = timers p"
proof -
  let ?p0 = "p\<lparr>evaluations := evaluations p @ [v]\<rparr>"
  obtain x p1 where l: "loadSearchPokedex r ?p0 = (x, p1)" by (cases "loadSearchPokedex r ?p0")
  have e: "evaluations p1 = evaluations p @ [v]" "timers p1 = timers p"
    using loadSearchPokedex_frame [of r ?p0] l by simp_all
  show "evaluations (search_evaluation r p) = evaluations p @ [v]"
    using assms l e
    by (simp add: search_evaluation_def Let_def renderSearchResults_frame
          split: sum.splits del: object_keys.simps)
  show "timers (search_evaluation r p) = timers p"
    using assms l e
    by (simp add: search_evaluation_def Let_def renderSearchResults_frame
          split: sum.splits del: object_keys.simps)
qed

lemma elapse_early:
  assumes "timers p = [] \<or> (\<exists>h d. timers p = [(h, d)] \<and> t < d)"
  shows "elapse r t p = p\<lparr>clock := max (clock p) t\<rparr>"
  using assms by (auto simp: elapse_def)

lemma elapse_due:
  assumes "timers p = [(h, d)]" and "d \<le> t" and "search p = Some v"
  shows "evaluations (elapse r t p) = evaluations p @ [v]" and "timers (elapse r t p) = []"
proof -
  have "elapse r t p = search_evaluation r (p\<lparr>timers := [], clock := max (clock p) t\<rparr>)"
    using assms(1,2) by (simp add: elapse_def)
  then show "evaluations (elapse r t p) = evaluations p @ [v]" and "timers (elapse r t p) = []"
    using search_evaluation_frame [of "p\<lparr>timers := [], clock := max (clock p) t\<rparr>" v r] assms(3)
    by simp_all
qed

lemma searchPokemon_schedules:
  assumes "search p \<noteq> None" and "search_results p \<noteq> None"
    and "timers p = [] \<or> (\<exists>h d. timers p = [(h, d)] \<and> searchDebounceTimer p = Some h)"
  shows "timers (searchPokemon p) = [(next_timer p, clock p + 120)]"
    and "searchDebounceTimer (searchPokemon p) = Some (next_timer p)"
    and "search (searchPokemon p) = search p"
    and "search_results (searchPokemon p) = search_results p"
    and "listeners (searchPokemon p) = listeners p"
    and "clock (searchPokemon p) = clock p"
    and "evaluations (searchPokemon p) = evaluations p"
  using assms
  by (auto simp: searchPokemon_def setTimeout_def clearTimeout_def split: option.splits)

text \<open>A keystroke that comes before the pending timeout is due replaces that timeout.\<close>

lemma keystroke_step:
  assumes "search p \<noteq> None" and "search_results p \<noteq> None"
    and "SearchInput \<in> set (listeners p)" and "clock p \<le> t"
    and "timers p = [] \<or> (\<exists>h d. timers p = [(h, d)] \<and> searchDebounceTimer p = Some h \<and> t < d)"
  shows "search (keystroke r (t, v) p) = Some v"
    and "search_results (keystroke r (t, v) p) = search_results p"
    and "listeners (keystroke r (t, v) p) = listeners p"
    and "clock (keystroke r (t, v) p) = t"
    and "\<exists>h. timers (keystroke r (t, v) p) = [(h, t + 120)]
             \<and> searchDebounceTimer (keystroke r (t, v) p) = Some h"
    and "evaluations (keystroke r (t, v) p) = evaluations p"
proof -
  let ?p1 = "p\<lparr>clock := max (clock p) t\<rparr>"
  let ?p2 = "?p1\<lparr>search := map_option (\<lambda>_. v) (search ?p1)\<rparr>"
  have e: "elapse r t p = ?p1"
    using assms(5) by (intro elapse_early) auto
  have k: "keystroke r (t, v) p = searchPokemon ?p2"
    using assms(3) by (simp add: keystroke_def e)
  have s: "search ?p2 = Some v" using assms(1) by auto
  have a: "search ?p2 \<noteq> None" "search_results ?p2 \<noteq> None"
    "timers ?p2 = [] \<or> (\<exists>h d. timers ?p2 = [(h, d)] \<and> searchDebounceTimer ?p2 = Some h)"
    using assms(1,2,5) by auto
  note sp = searchPokemon_schedules [OF a]
  show "search (keystroke r (t, v) p) = Some v" using sp(3) s by (simp add: k)
  show "search_results (keystroke r (t, v) p) = search_results p" using sp(4) by (simp add: k)
  show "listeners (keystroke r (t, v) p) = listeners p" using sp(5) by (simp add: k)
  show "clock (keystroke r (t, v) p) = t" using sp(6) assms(4) by (simp add: k)
  show "\<exists>h. timers (keystroke r (t, v) p) = [(h, t + 120)]
             \<and> searchDebounceTimer (keystroke r (t, v) p) = Some h"
    using sp(1,2) assms(4) by (simp add: k max_def)
  show "evaluations (keystroke r (t, v) p) = evaluations p" using sp(7) by (simp add: k)
qed

lemma typing_burst:
  assumes "search p \<noteq> None" and "search_results p \<noteq> None"
    and "SearchInput \<in> set (listeners p)" and "clock p \<le> fst k"
    and "timers p = [] \<or> (\<exists>h d. timers p = [(h, d)] \<and> searchDebounceTimer p = Some h \<and> fst k < d)"
    and "rapid (k # ks)"
  shows "search (typing r (k # ks) p) = Some (snd (last (k # ks))) \<and>
         (\<exists>h. timers (typing r (k # ks) p) = [(h, fst (last (k # ks)) + 120)]) \<and>
         evaluations (typing r (k # ks) p) = evaluations p"
  using assms
proof (induction ks arbitrary: k p)
  case Nil
  obtain t v where k: "k = (t, v)" by (cases k)
  show ?case
    using keystroke_step [of p t r v] Nil.prems by (auto simp: typing_def k)
next
  case (Cons k' ks)
  obtain t v where k: "k = (t, v)" by (cases k)
  let ?p1 = "keystroke r (t, v) p"
  note st = keystroke_step [of p t r v, OF Cons.prems(1,2,3) Cons.prems(4) [unfolded k fst_conv]
                              Cons.prems(5) [unfolded k fst_conv]]
  have r: "t \<le> fst k'" "fst k' < t + 120" "rapid (k' # ks)"
    using Cons.prems(6) by (simp_all add: k)
  have 1: "search ?p1 \<noteq> None" using st(1) by simp
  have 2: "search_results ?p1 \<noteq> None" using st(2) Cons.prems(2) by simp
  have 3: "SearchInput \<in> set (listeners ?p1)" using st(3) Cons.prems(3) by simp
  have 4: "clock ?p1 \<le> fst k'" using st(4) r(1) by simp
  have 5: "timers ?p1 = [] \<or>
       (\<exists>h d. timers ?p1 = [(h, d)] \<and> searchDebounceTimer ?p1 = Some h \<and> fst k' < d)"
    using st(5) r(2) by auto
  have "typing r (k # k' # ks) p = typing r (k' # ks) ?p1"
    by (simp add: typing_def k)
  then show ?case
    using Cons.IH [OF 1 2 3 4 5 r(3)] st(6) by simp
qed


text \<open>
  C6. Take a page with the input, the results box and the \<open>input\<close> handler, and no
  timeout pending, and a run of keystrokes in time order, each less than 120 ms after the
  one before. Every keystroke cancels the pending timeout and sets a new one, so after
  the run exactly one timeout is pending, due 120 ms after the last keystroke, and no
  search evaluation has run. None runs before that time; at that time exactly one runs,
  it reads the value the last keystroke left in the input, and no timeout is left.
\<close>

theorem debounce_single_evaluation:
  assumes "search p \<noteq> None" and "search_results p \<noteq> None"
    and "SearchInput \<in> set (listeners p)" and "timers p = []"
    and "ks \<noteq> []" and "rapid ks" and "clock p \<le> fst (hd ks)"
  shows "evaluations (typing r ks p) = evaluations p \<and>
         (\<exists>h. timers (typing r ks p) = [(h, fst (last ks) + 120)]) \<and>
         (T < fst (last ks) + 120 \<longrightarrow>
            evaluations (elapse r T (typing r ks p)) = evaluations p) \<and>
         (fst (last ks) + 120 \<le> T \<longrightarrow>
            evaluations (elapse r T (typing r ks p)) = evaluations p @ [snd (last ks)] \<and>
            timers (elapse r T (typing r ks p)) = [])"
proof -
  obtain k ks' where ks: "ks = k # ks'" using assms(5) by (cases ks) auto
  let ?p = "typing r ks p"
  have b: "search ?p = Some (snd (last ks)) \<and>
         (\<exists>h. timers ?p = [(h, fst (last ks) + 120)]) \<and>
         evaluations ?p = evaluations p"
    unfolding ks
    using assms(1,2,3) assms(7) [unfolded ks list.sel] _ assms(6) [unfolded ks]
    by (rule typing_burst) (simp add: assms(4))
  then obtain h where h: "timers ?p = [(h, fst (last ks) + 120)]" by blast
  have 1: "evaluations (elapse r T ?p) = evaluations p" if "T < fst (last ks) + 120"
  proof -
    have "elapse r T ?p = ?p\<lparr>clock := max (clock ?p) T\<rparr>"
      using h that by (intro elapse_early) auto
    then show ?thesis using b by simp
  qed
  have 2: "evaluations (elapse r T ?p) = evaluations p @ [snd (last ks)] \<and>
            timers (elapse r T ?p) = []" if "fst (last ks) + 120 \<le> T"
    using elapse_due [OF h that, of "snd (last ks)" r] b by simp
  show ?thesis using b 1 2 by blast
qed

theorem debounce_single_evaluation_witness:
  "search (search_page [] JNull) \<noteq> None \<and>
   search_results (search_page [] JNull) \<noteq> None \<and>
   SearchInput \<in> set (listeners (search_page [] JNull)) \<and>
   timers (search_page [] JNull) = [] \<and>
   rapid [(0, ''c''), (50, ''ch''), (100, ''char'')] \<and>
   clock (search_page [] JNull) \<le> fst (hd [(0, ''c''), (50, ''ch''), (100, ''char'')]) \<and>
   evaluations (typing Rejected [(0, ''c''), (50, ''ch''), (100, ''char'')] (search_page [] JNull)) = [] \<and>
   evaluations (elapse Rejected 219
      (typing Rejected [(0, ''c''), (50, ''ch''), (100, ''char'')] (search_page [] JNull))) = [] \<and>
   evaluations (elapse Rejected 220
      (typing Rejected [(0, ''c''), (50, ''ch''), (100, ''char'')] (search_page [] JNull)))
     = [''char'']"
  using debounce_single_evaluation
          [of "search_page [] JNull" "[(0, ''c''), (50, ''ch''), (100, ''char'')]" Rejected 219]
        debounce_single_evaluation
          [of "search_page [] JNull" "[(0, ''c''), (50, ''ch''), (100, ''char'')]" Rejected 220]
  by (simp add: search_page_def blank_page_def)

end
